theory Spec2Isabelle
  imports Complex_Main "HOL-Library.Sublist"
begin

section \<open>Data model (types/infrastructure.ts)\<close>

text \<open>
  \<open>SimulationGoal\<close> is the union of three string literals. \<open>ComponentType\<close> is a union of
  string literals too; TypeScript erases it, and the callers of the store pass strings
  \<open>as any\<close>, so a component's type is carried as the string it is at run time and the
  union is the list of its members.
\<close>

datatype SimulationGoal = low_latency | high_availability | low_cost

definition ComponentType :: "string list" where
  "ComponentType =
    [''lambda'', ''s3'', ''dynamodb'', ''cloudfront'', ''api_gateway'', ''amplify'', ''rds'',
     ''elasticache'', ''sqs'', ''sns'', ''load_balancer'',
     ''vpc'', ''subnet'', ''security_group'', ''nat_gateway'', ''internet_gateway'',
     ''compute_node'', ''database'', ''cache'', ''message_queue'']"

text \<open>
  A position \<open>{x, y, z}\<close>. The store only copies coordinates, it never computes with them.
\<close>

record vec3 =
  pos_x :: rat
  pos_y :: rat
  pos_z :: rat

text \<open>
  \<open>InfrastructureComponent\<close>. The field names \<open>id\<close> and \<open>type\<close> carry the suffix \<open>_c\<close>.
  \<open>configuration\<close> is an opaque bag, \<open>{}\<close> for every component the store creates.
\<close>

record InfrastructureComponent =
  id_c :: string
  type_c :: string
  configuration :: "(string \<times> string) list"
  position :: "vec3 option"

text \<open>
  \<open>SimulationResult\<close>, as it arrives from the simulation service. \<open>scalability_score\<close> and
  \<open>cost_index\<close> are integers in the service's contract.
\<close>

record SimulationResult =
  estimated_latency_ms :: rat
  scalability_score :: int
  cost_index :: int
  explanation :: string

section \<open>The lab store (store/labStore.ts)\<close>

record history_entry =
  result :: SimulationResult
  timestamp :: int
  componentCount :: nat

text \<open>
  The state of the store. \<open>componentCounter\<close> is the module-level variable of labStore.ts,
  kept next to the fields of the store because \<open>addComponent\<close> updates it; it is a count of
  calls, far below the range where a JavaScript number stops being exact.
\<close>

record LabStore =
  components :: "InfrastructureComponent list"
  connections :: "(string \<times> string) list"
  goal :: SimulationGoal
  simulationResult :: "SimulationResult option"
  resultsHistory :: "history_entry list"
  isSimulating :: bool
  selectedComponentId :: "string option"
  isDraggingComponent :: bool
  useCase :: string
  componentCounter :: nat

definition initial_store :: LabStore where
  "initial_store =
    \<lparr> components = [], connections = [], goal = low_latency, simulationResult = None,
      resultsHistory = [], isSimulating = False, selectedComponentId = None,
      isDraggingComponent = False, useCase = [], componentCounter = 0 \<rparr>"

subsection \<open>Template literals: numbers as decimal strings\<close>

definition digit_char :: "nat \<Rightarrow> char" where
  "digit_char d = char_of (48 + d)"

function string_of_nat :: "nat \<Rightarrow> string" where
  "string_of_nat n =
     (if n < 10 then [digit_char n] else string_of_nat (n div 10) @ [digit_char (n mod 10)])"
  by pat_completeness auto
termination
  by (relation "measure (\<lambda>n. n)") auto

declare string_of_nat.simps [simp del]

definition string_of_int :: "int \<Rightarrow> string" where
  "string_of_int i = (if i < 0 then CHR ''-'' # string_of_nat (nat (- i)) else string_of_nat (nat i))"

subsection \<open>Operations\<close>

text \<open>
  Each operation is the function the source passes to \<open>set\<close>, applied to the state and
  merged into it. \<open>Date.now()\<close> is read by \<open>addComponent\<close> and \<open>setSimulationResult\<close>; the
  value read is the parameter \<open>now\<close>.
\<close>

definition new_component_id :: "string \<Rightarrow> int \<Rightarrow> nat \<Rightarrow> string" where
  "new_component_id ty now n = ty @ ''-'' @ string_of_int now @ ''-'' @ string_of_nat n"

definition addComponent :: "string \<Rightarrow> vec3 \<Rightarrow> int \<Rightarrow> LabStore \<Rightarrow> LabStore" where
  "addComponent ty pos now state =
     (let n = componentCounter state + 1 in
      state\<lparr> componentCounter := n,
             components := components state @
               [\<lparr> id_c = new_component_id ty now n, type_c = ty, configuration = [],
                  position = Some pos \<rparr>] \<rparr>)"

definition removeComponent :: "string \<Rightarrow> LabStore \<Rightarrow> LabStore" where
  "removeComponent i state =
     state\<lparr> components := filter (\<lambda>c. id_c c \<noteq> i) (components state),
            connections := filter (\<lambda>(from, to). from \<noteq> i \<and> to \<noteq> i) (connections state),
            selectedComponentId :=
              (if selectedComponentId state = Some i then None else selectedComponentId state) \<rparr>"

definition updateComponentPosition :: "string \<Rightarrow> vec3 \<Rightarrow> LabStore \<Rightarrow> LabStore" where
  "updateComponentPosition i pos state =
     state\<lparr> components :=
              map (\<lambda>c. if id_c c = i then c\<lparr> position := Some pos \<rparr> else c) (components state) \<rparr>"

definition addConnection :: "string \<Rightarrow> string \<Rightarrow> LabStore \<Rightarrow> LabStore" where
  "addConnection fromId toId state =
     (let exists = list_ex (\<lambda>(f, t). f = fromId \<and> t = toId) (connections state) in
      if exists then state
      else state\<lparr> connections := connections state @ [(fromId, toId)] \<rparr>)"

definition removeConnection :: "string \<Rightarrow> string \<Rightarrow> LabStore \<Rightarrow> LabStore" where
  "removeConnection fromId toId state =
     state\<lparr> connections :=
              filter (\<lambda>(f, t). \<not> (f = fromId \<and> t = toId)) (connections state) \<rparr>"

definition setGoal :: "SimulationGoal \<Rightarrow> LabStore \<Rightarrow> LabStore" where
  "setGoal g state = state\<lparr> goal := g \<rparr>"

definition setSimulationResult :: "SimulationResult option \<Rightarrow> int \<Rightarrow> LabStore \<Rightarrow> LabStore" where
  "setSimulationResult res now state =
     (case res of
        Some r \<Rightarrow>
          (let newHistory =
                 take 5 (\<lparr> result = r, timestamp = now,
                            componentCount = length (components state) \<rparr> # resultsHistory state)
           in state\<lparr> simulationResult := Some r, resultsHistory := newHistory \<rparr>)
      | None \<Rightarrow> state\<lparr> simulationResult := None \<rparr>)"

definition setIsSimulating :: "bool \<Rightarrow> LabStore \<Rightarrow> LabStore" where
  "setIsSimulating b state = state\<lparr> isSimulating := b \<rparr>"

definition setSelectedComponentId :: "string option \<Rightarrow> LabStore \<Rightarrow> LabStore" where
  "setSelectedComponentId i state = state\<lparr> selectedComponentId := i \<rparr>"

definition setIsDraggingComponent :: "bool \<Rightarrow> LabStore \<Rightarrow> LabStore" where
  "setIsDraggingComponent b state = state\<lparr> isDraggingComponent := b \<rparr>"

definition setUseCase :: "string \<Rightarrow> LabStore \<Rightarrow> LabStore" where
  "setUseCase u state = state\<lparr> useCase := u \<rparr>"

text \<open>
  \<open>!state.selectedComponentId\<close> holds for \<open>null\<close> and for the empty string, the two falsy
  values of the type \<open>string | null\<close>: the first branch below is taken for both.
\<close>

definition handleComponentClick :: "string \<Rightarrow> LabStore \<Rightarrow> LabStore" where
  "handleComponentClick i state =
     (case selectedComponentId state of
        None \<Rightarrow> state\<lparr> selectedComponentId := Some i \<rparr>
      | Some fromId \<Rightarrow>
          if fromId = [] then state\<lparr> selectedComponentId := Some i \<rparr>
          else if fromId = i then state\<lparr> selectedComponentId := None \<rparr>
          else
            (let toId = i;
                 exists = list_ex (\<lambda>(f, t). (f = fromId \<and> t = toId) \<or> (f = toId \<and> t = fromId))
                            (connections state)
             in if \<not> exists
                then state\<lparr> connections := connections state @ [(fromId, toId)],
                            selectedComponentId := None \<rparr>
                else state\<lparr> selectedComponentId := None \<rparr>))"

definition clearLab :: "LabStore \<Rightarrow> LabStore" where
  "clearLab state =
     state\<lparr> components := [], connections := [], simulationResult := None,
            selectedComponentId := None \<rparr>"

subsection \<open>Sequences of calls\<close>

datatype action =
    AddComponent string vec3 int
  | RemoveComponent string
  | UpdateComponentPosition string vec3
  | AddConnection string string
  | RemoveConnection string string
  | SetGoal SimulationGoal
  | SetSimulationResult "SimulationResult option" int
  | SetIsSimulating bool
  | SetSelectedComponentId "string option"
  | SetIsDraggingComponent bool
  | SetUseCase string
  | HandleComponentClick string
  | ClearLab

fun step :: "action \<Rightarrow> LabStore \<Rightarrow> LabStore" where
  "step (AddComponent ty pos now) s = addComponent ty pos now s"
| "step (RemoveComponent i) s = removeComponent i s"
| "step (UpdateComponentPosition i pos) s = updateComponentPosition i pos s"
| "step (AddConnection f t) s = addConnection f t s"
| "step (RemoveConnection f t) s = removeConnection f t s"
| "step (SetGoal g) s = setGoal g s"
| "step (SetSimulationResult r now) s = setSimulationResult r now s"
| "step (SetIsSimulating b) s = setIsSimulating b s"
| "step (SetSelectedComponentId i) s = setSelectedComponentId i s"
| "step (SetIsDraggingComponent b) s = setIsDraggingComponent b s"
| "step (SetUseCase u) s = setUseCase u s"
| "step (HandleComponentClick i) s = handleComponentClick i s"
| "step ClearLab s = clearLab s"

fun run :: "action list \<Rightarrow> LabStore \<Rightarrow> LabStore" where
  "run [] s = s"
| "run (a # as) s = run as (step a s)"

section \<open>Display of the cost (StatusBar and ResultsPanel)\<close>

text \<open>
  The definitions of this section are those of the code for a cost index inside the
  service's contract, an integer from 0 to 100. There the product \<open>cost_index * 2.5\<close> is a
  multiple of one half below 251, which a JavaScript number holds exactly, and the template
  literal prints the rounded amount in plain decimal. Outside that range (beyond 2^53, or
  from 1e21 on, where the literal prints an exponent) doubles behave otherwise, and the
  properties below are stated for the range only.

  \<open>Math.round\<close> rounds to the nearest integer, a tie towards plus infinity.
\<close>

definition Math_round :: "rat \<Rightarrow> int" where
  "Math_round v = \<lfloor>v + 1 / 2\<rfloor>"

text \<open>
  StatusBar: \<open>simulationResult && simulationResult.cost_index ? `$...` : 'Run simulation'\<close>.
  A number is falsy when it is 0.
\<close>

definition estimatedCost :: "LabStore \<Rightarrow> string" where
  "estimatedCost state =
     (case simulationResult state of
        None \<Rightarrow> ''Run simulation''
      | Some r \<Rightarrow>
          if cost_index r \<noteq> 0
          then ''$'' @ string_of_int (Math_round (of_int (cost_index r) * 2.5)) @ ''/mo''
          else ''Run simulation'')"

text \<open>
  ResultsPanel renders nothing without a result unless a simulation runs, a spinner while
  one runs, and the metrics of the result otherwise; the line under the cost index is
  \<open>~$...\<close>\<open>/month\<close>. \<open>None\<close> stands for no such line on the screen.
\<close>

definition ResultsPanel_cost_line :: "LabStore \<Rightarrow> string option" where
  "ResultsPanel_cost_line state =
     (if simulationResult state = None \<and> \<not> isSimulating state then None
      else if isSimulating state then None
      else (case simulationResult state of
              Some r \<Rightarrow>
                Some (''~$'' @ string_of_int (Math_round (of_int (cost_index r) * 2.5)) @ ''/month'')
            | None \<Rightarrow> None))"

section \<open>The palette (components/ui/ComponentPalette.tsx)\<close>

text \<open>
  \<open>ComponentInfo\<close>; the icon is a React element, kept as the name of its component.
\<close>

record ComponentInfo =
  type_i :: string
  icon :: string
  label :: string
  color :: string
  cost :: string
  latency :: string
  description :: string

definition componentTypes :: "ComponentInfo list" where
  "componentTypes =
    [\<lparr> type_i = ''lambda'', icon = ''Zap'', label = ''Lambda'', color = ''#ff9500'',
       cost = ''~$5/mo'', latency = ''15ms'', description = ''Serverless compute'' \<rparr>,
     \<lparr> type_i = ''s3'', icon = ''Box'', label = ''S3'', color = ''#569a31'',
       cost = ''~$3/mo'', latency = ''10ms'', description = ''Object storage'' \<rparr>,
     \<lparr> type_i = ''dynamodb'', icon = ''Database'', label = ''DynamoDB'', color = ''#4053d6'',
       cost = ''~$8/mo'', latency = ''8ms'', description = ''NoSQL database'' \<rparr>,
     \<lparr> type_i = ''cloudfront'', icon = ''Globe'', label = ''CloudFront'', color = ''#8c4fff'',
       cost = ''~$10/mo'', latency = ''5ms'', description = ''CDN service'' \<rparr>,
     \<lparr> type_i = ''api_gateway'', icon = ''Workflow'', label = ''API Gateway'', color = ''#ff4f81'',
       cost = ''~$5/mo'', latency = ''12ms'', description = ''API management'' \<rparr>,
     \<lparr> type_i = ''amplify'', icon = ''Cloud'', label = ''Amplify'', color = ''#ff9900'',
       cost = ''~$15/mo'', latency = ''8ms'', description = ''Full-stack hosting'' \<rparr>,
     \<lparr> type_i = ''rds'', icon = ''Database'', label = ''RDS'', color = ''#3b48cc'',
       cost = ''~$120/mo'', latency = ''20ms'', description = ''Relational database'' \<rparr>,
     \<lparr> type_i = ''elasticache'', icon = ''HardDrive'', label = ''ElastiCache'', color = ''#d32f2f'',
       cost = ''~$50/mo'', latency = ''3ms'', description = ''In-memory cache'' \<rparr>,
     \<lparr> type_i = ''sqs'', icon = ''MessageSquare'', label = ''SQS'', color = ''#d13212'',
       cost = ''~$3/mo'', latency = ''10ms'', description = ''Message queue'' \<rparr>,
     \<lparr> type_i = ''sns'', icon = ''Radio'', label = ''SNS'', color = ''#ff4785'',
       cost = ''~$3/mo'', latency = ''8ms'', description = ''Notification service'' \<rparr>,
     \<lparr> type_i = ''load_balancer'', icon = ''Layers'', label = ''ALB'', color = ''#ff6b35'',
       cost = ''~$20/mo'', latency = ''5ms'', description = ''Load balancing'' \<rparr>,
     \<lparr> type_i = ''compute_node'', icon = ''Server'', label = ''EC2'', color = ''#4ecdc4'',
       cost = ''~$40/mo'', latency = ''2ms'', description = ''Virtual server'' \<rparr>,
     \<lparr> type_i = ''vpc'', icon = ''Box'', label = ''VPC'', color = ''#2e7d32'',
       cost = ''Free'', latency = ''0ms'', description = ''Virtual network'' \<rparr>,
     \<lparr> type_i = ''subnet'', icon = ''Layers'', label = ''Subnet'', color = ''#558b2f'',
       cost = ''Free'', latency = ''0ms'', description = ''Network segment'' \<rparr>,
     \<lparr> type_i = ''security_group'', icon = ''Server'', label = ''SecGroup'', color = ''#ffa726'',
       cost = ''Free'', latency = ''0ms'', description = ''Firewall rules'' \<rparr>,
     \<lparr> type_i = ''nat_gateway'', icon = ''Globe'', label = ''NAT GW'', color = ''#5c6bc0'',
       cost = ''~$35/mo'', latency = ''5ms'', description = ''Outbound gateway'' \<rparr>,
     \<lparr> type_i = ''internet_gateway'', icon = ''Globe'', label = ''IGW'', color = ''#26a69a'',
       cost = ''Free'', latency = ''3ms'', description = ''Internet gateway'' \<rparr>]"

section \<open>The simulation engine\<close>

text \<open>
  The engine runs behind \<open>POST /simulate\<close> (services/api.ts, \<open>simulateInfrastructure\<close>); its
  code is not part of the frontend sources. The definitions of this section follow the
  specification of the engine, sentence by sentence. What the specification leaves open
  (the catalog's entries, the thresholds and amounts of the size penalty, the bonus, the
  cost threshold, the linear scale, the formatter's text) is a field of \<open>engine_params\<close>.
\<close>

datatype category =
  compute | storage | database | cache | cdn | networking | messaging | security | platform
  | generic

text \<open>Modelled from the spec: the catalog entry \<open>ComponentProfile\<close> of section 3.\<close>

record ComponentProfile =
  kind :: string
  base_latency_ms :: rat
  base_monthly_cost :: rat
  category :: category
  scalability_ceiling :: "int option"
  latency_reduction_factor :: "rat option"

text \<open>Modelled from the spec: the caller's \<open>GraphComponent\<close> and \<open>Graph\<close> of section 3.\<close>

record GraphComponent =
  gc_id :: string
  gc_kind :: string
  gc_configuration :: "(string \<times> string) list"

record Graph =
  graph_components :: "GraphComponent list"
  graph_connections :: "(string \<times> string) list"

text \<open>Modelled from the spec: the two validation failures of section 7.\<close>

datatype engine_error = UnknownComponentKind | DanglingConnection

text \<open>
  Modelled from the spec: the catalog table and the constants the specification names
  without a value.
\<close>

record engine_params =
  catalog :: "ComponentProfile list"
  serverless_kinds :: "string list"
  component_free_threshold :: nat
  component_penalty :: int
  connection_free_threshold :: nat
  connection_penalty :: int
  resilience_bonus :: int
  expensive_threshold :: rat
  cost_scale :: "int \<Rightarrow> int"
  formatter :: "rat \<times> int \<times> int \<Rightarrow> SimulationGoal \<Rightarrow> Graph \<Rightarrow> string"

text \<open>
  Modelled from the spec: \<open>lookup(kind)\<close> of section 4.1, \<open>None\<close> where it fails with
  \<open>UnknownComponentKind\<close>.
\<close>

definition lookup :: "engine_params \<Rightarrow> string \<Rightarrow> ComponentProfile option" where
  "lookup P k = find (\<lambda>p. kind p = k) (catalog P)"

text \<open>
  Modelled from the spec: step 1 of section 4.2, every kind is resolved against the catalog
  and then every connection endpoint against the component ids.
\<close>

definition validate :: "engine_params \<Rightarrow> Graph \<Rightarrow> engine_error option" where
  "validate P g =
     (if list_ex (\<lambda>c. lookup P (gc_kind c) = None) (graph_components g)
      then Some UnknownComponentKind
      else if list_ex (\<lambda>(f, t). \<not> (f \<in> set (map gc_id (graph_components g)) \<and>
                                   t \<in> set (map gc_id (graph_components g))))
                (graph_connections g)
      then Some DanglingConnection
      else None)"

text \<open>Modelled from the spec: the profiles of the components of a validated graph.\<close>

definition profiles_of :: "engine_params \<Rightarrow> Graph \<Rightarrow> ComponentProfile list" where
  "profiles_of P g = List.map_filter (\<lambda>c. lookup P (gc_kind c)) (graph_components g)"

text \<open>
  Modelled from the spec: the reductions of step 2, one per component whose profile has a
  \<open>latency_reduction_factor\<close>, taken in the order of the catalog.
\<close>

definition reducers :: "engine_params \<Rightarrow> Graph \<Rightarrow> rat list" where
  "reducers P g =
     concat (map (\<lambda>p. case latency_reduction_factor p of
                         None \<Rightarrow> []
                       | Some f \<Rightarrow> replicate (length (filter (\<lambda>c. gc_kind c = kind p)
                                                         (graph_components g))) f)
                 (catalog P))"

text \<open>
  Modelled from the spec: step 2 of section 4.2. The sum of the base latencies, the expected
  cold-start penalty (100 ms at 10 percent) for each serverless compute component, 2 ms for
  each connection (a repeated connection counted once, a self-loop not at all: it is a
  zero-length hop), every reduction applied to the total, and the clamp at 0.
\<close>

definition latency_of :: "engine_params \<Rightarrow> Graph \<Rightarrow> rat" where
  "latency_of P g =
     (let ps = profiles_of P g;
          base = sum_list (map base_latency_ms ps);
          cold = of_nat (length (filter (\<lambda>p. category p = compute \<and>
                                              kind p \<in> set (serverless_kinds P)) ps))
                   * 100 * (1 / 10);
          hops = 2 * of_nat (length (remdups (filter (\<lambda>(f, t). f \<noteq> t)
                                                      (graph_connections g))));
          reduced = fold (\<lambda>f total. total * (1 - f)) (reducers P g) (base + cold + hops)
      in max 0 reduced)"

text \<open>
  Modelled from the spec: the ceiling of step 3, the least \<open>scalability_ceiling\<close> present,
  below the baseline of 100.
\<close>

definition ceiling_of :: "engine_params \<Rightarrow> Graph \<Rightarrow> int" where
  "ceiling_of P g =
     fold (\<lambda>p cur. case scalability_ceiling p of None \<Rightarrow> cur | Some c \<Rightarrow> min cur c)
          (profiles_of P g) 100"

text \<open>
  Modelled from the spec: step 3 of section 4.2. The ceiling, the size penalty per
  component and per connection beyond the free thresholds, the resilience bonus for a load
  balancer or a messaging component (not beyond the ceiling), and the clamp to 0..100.
\<close>

definition scalability_of :: "engine_params \<Rightarrow> Graph \<Rightarrow> int" where
  "scalability_of P g =
     (let ps = profiles_of P g;
          capped = ceiling_of P g;
          penalised = capped
            - component_penalty P * int (length (graph_components g) - component_free_threshold P)
            - connection_penalty P *
                int (length (remdups (graph_connections g)) - connection_free_threshold P);
          resilient = list_ex (\<lambda>p. kind p = ''load_balancer'' \<or> category p = messaging) ps;
          bonused = (if resilient then min capped (penalised + resilience_bonus P) else penalised)
      in max 0 (min 100 bonused))"

text \<open>
  Modelled from the spec: step 4 of section 4.2. The raw figure 10 + 8 per expensive
  component + 3 per cheap one (a component with no cost adds nothing, so that a graph of
  free-tier components stays at the baseline), mapped by the scale and clamped to 0..100.
\<close>

definition cost_index_of :: "engine_params \<Rightarrow> Graph \<Rightarrow> int" where
  "cost_index_of P g =
     (let ps = profiles_of P g;
          expensive = length (filter (\<lambda>p. expensive_threshold P \<le> base_monthly_cost p) ps);
          cheap = length (filter (\<lambda>p. 0 < base_monthly_cost p \<and>
                                       base_monthly_cost p < expensive_threshold P) ps);
          raw = 10 + 8 * int expensive + 3 * int cheap
      in max 0 (min 100 (cost_scale P raw)))"

text \<open>
  Modelled from the spec: \<open>simulate(graph, goal)\<close> of section 4.2. Validation first; then
  the three scores, computed from the graph alone (step 5: no reweighting by goal); the goal
  goes to the explanation formatter with the scores and the graph.
\<close>

definition simulate :: "engine_params \<Rightarrow> Graph \<Rightarrow> SimulationGoal \<Rightarrow> engine_error + SimulationResult" where
  "simulate P g gl =
     (case validate P g of
        Some e \<Rightarrow> Inl e
      | None \<Rightarrow>
          (let l = latency_of P g; s = scalability_of P g; c = cost_index_of P g
           in Inr \<lparr> estimated_latency_ms = l, scalability_score = s, cost_index = c,
                    explanation = formatter P (l, s, c) gl g \<rparr>))"

text \<open>The three scores of a run, or its failure.\<close>

definition scores :: "engine_error + SimulationResult \<Rightarrow> engine_error + rat \<times> int \<times> int" where
  "scores out =
     map_sum id (\<lambda>r. (estimated_latency_ms r, scalability_score r, cost_index r)) out"

section \<open>Invariants of the store\<close>

text \<open>Every endpoint of every connection is the id of a component of the store.\<close>

definition component_ids :: "LabStore \<Rightarrow> string set" where
  "component_ids s = set (map id_c (components s))"

definition endpoints_resolve :: "LabStore \<Rightarrow> bool" where
  "endpoints_resolve s =
     list_all (\<lambda>(f, t). f \<in> component_ids s \<and> t \<in> component_ids s) (connections s)"

text \<open>The selected id, when there is one, is the id of a component of the store.\<close>

definition selection_resolves :: "LabStore \<Rightarrow> bool" where
  "selection_resolves s =
     (case selectedComponentId s of None \<Rightarrow> True | Some i \<Rightarrow> i \<in> component_ids s)"

text \<open>
  The calls the user interface makes: \<open>addConnection\<close> with two ids read from
  \<open>store.components\<close>, \<open>handleComponentClick\<close> with the id of the node clicked,
  \<open>setSelectedComponentId\<close> with \<open>null\<close> (or the id of a component).
\<close>

fun call_in_graph :: "action \<Rightarrow> LabStore \<Rightarrow> bool" where
  "call_in_graph (AddConnection f t) s = (f \<in> component_ids s \<and> t \<in> component_ids s)"
| "call_in_graph (HandleComponentClick i) s = (i \<in> component_ids s)"
| "call_in_graph (SetSelectedComponentId (Some i)) s = (i \<in> component_ids s)"
| "call_in_graph _ s = True"

fun calls_in_graph :: "action list \<Rightarrow> LabStore \<Rightarrow> bool" where
  "calls_in_graph [] s = True"
| "calls_in_graph (a # as) s = (call_in_graph a s \<and> calls_in_graph as (step a s))"

text \<open>The text of an id after its last hyphen: the counter's value, in decimal.\<close>

definition id_serial :: "string \<Rightarrow> string" where
  "id_serial i = rev (takeWhile (\<lambda>c. c \<noteq> CHR ''-'') (rev i))"

definition graph_inv :: "LabStore \<Rightarrow> bool" where
  "graph_inv s = (endpoints_resolve s \<and> selection_resolves s)"

text \<open>
  Every id in the store ends in the decimal text of a counter value issued so far, and no
  two ids end in the same text.
\<close>

definition serial_inv :: "LabStore \<Rightarrow> bool" where
  "serial_inv s =
     (list_all (\<lambda>c. id_serial (id_c c) \<in> set (map string_of_nat [0..<Suc (componentCounter s)]))
               (components s) \<and>
      distinct (map (\<lambda>c. id_serial (id_c c)) (components s)))"

section \<open>Sample states\<close>

definition origin :: vec3 where
  "origin = \<lparr> pos_x = 0, pos_y = 0, pos_z = 0 \<rparr>"

definition sample_result :: "int \<Rightarrow> SimulationResult" where
  "sample_result c =
     \<lparr> estimated_latency_ms = 45, scalability_score = 75, cost_index = c, explanation = ''ok'' \<rparr>"

text \<open>A store showing a result with cost index \<open>c\<close>.\<close>

definition store_showing :: "int \<Rightarrow> LabStore" where
  "store_showing c = initial_store\<lparr> simulationResult := Some (sample_result c) \<rparr>"

text \<open>A store with the components \<open>a\<close> and \<open>b\<close>, the connection from \<open>a\<close> to \<open>b\<close>, and a selection.\<close>

definition two_node_store :: "string option \<Rightarrow> LabStore" where
  "two_node_store sel =
     initial_store
       \<lparr> components :=
           [\<lparr> id_c = ''a'', type_c = ''s3'', configuration = [], position = Some origin \<rparr>,
            \<lparr> id_c = ''b'', type_c = ''rds'', configuration = [], position = Some origin \<rparr>,
            \<lparr> id_c = ''c'', type_c = ''sqs'', configuration = [], position = Some origin \<rparr>],
         connections := [(''a'', ''b'')],
         selectedComponentId := sel \<rparr>"

text \<open>
  Two components are added, the first is clicked and then the second (which connects
  them), and the first is removed.
\<close>

definition build_calls :: "action list" where
  "build_calls =
     [AddComponent ''s3'' origin 1700, AddComponent ''rds'' origin 1700,
      HandleComponentClick ''s3-1700-1'', HandleComponentClick ''rds-1700-2'',
      RemoveComponent ''s3-1700-1'']"

text \<open>
  A catalog of four kinds with the numbers the specification gives as examples (the
  ceiling 60 of the relational database, the reduction by 60 percent of the in-memory
  cache, the bonus 10, the threshold 30), and a graph of a load balancer, a function and a
  database.
\<close>

definition sample_params :: engine_params where
  "sample_params =
    \<lparr> catalog =
        [\<lparr> kind = ''lambda'', base_latency_ms = 15, base_monthly_cost = 5, category = compute,
           scalability_ceiling = None, latency_reduction_factor = None \<rparr>,
         \<lparr> kind = ''rds'', base_latency_ms = 12, base_monthly_cost = 120, category = database,
           scalability_ceiling = Some 60, latency_reduction_factor = None \<rparr>,
         \<lparr> kind = ''elasticache'', base_latency_ms = 2, base_monthly_cost = 80, category = cache,
           scalability_ceiling = None, latency_reduction_factor = Some (6 / 10) \<rparr>,
         \<lparr> kind = ''load_balancer'', base_latency_ms = 8, base_monthly_cost = 25,
           category = networking, scalability_ceiling = None, latency_reduction_factor = None \<rparr>],
      serverless_kinds = [''lambda''],
      component_free_threshold = 5, component_penalty = 2,
      connection_free_threshold = 5, connection_penalty = 1,
      resilience_bonus = 10, expensive_threshold = 30,
      cost_scale = (\<lambda>raw. raw),
      formatter = (\<lambda>sc gl g. case gl of
                      low_latency \<Rightarrow> ''optimized for low latency''
                    | high_availability \<Rightarrow> ''optimized for high availability''
                    | low_cost \<Rightarrow> ''optimized for low cost'') \<rparr>"

definition sample_graph :: Graph where
  "sample_graph =
     \<lparr> graph_components =
         [\<lparr> gc_id = ''lb'', gc_kind = ''load_balancer'', gc_configuration = [] \<rparr>,
          \<lparr> gc_id = ''fn'', gc_kind = ''lambda'', gc_configuration = [] \<rparr>,
          \<lparr> gc_id = ''db'', gc_kind = ''rds'', gc_configuration = [] \<rparr>],
       graph_connections = [(''lb'', ''fn''), (''fn'', ''db'')] \<rparr>"

section \<open>Properties of the store\<close>

lemmas store_op_defs =
  addComponent_def removeComponent_def updateComponentPosition_def addConnection_def
  removeConnection_def setGoal_def setSimulationResult_def setIsSimulating_def
  setSelectedComponentId_def setIsDraggingComponent_def setUseCase_def
  handleComponentClick_def clearLab_def

lemmas sample_defs =
  two_node_store_def store_showing_def sample_result_def origin_def initial_store_def

lemma list_ex_pair: "list_ex (\<lambda>(f, t). f = a \<and> t = b) xs = ((a, b) \<in> set xs)"
  by (induction xs) auto

lemma list_ex_either:
  "list_ex (\<lambda>(f, t). (f = a \<and> t = b) \<or> (f = b \<and> t = a)) xs
     = ((a, b) \<in> set xs \<or> (b, a) \<in> set xs)"
  by (induction xs) auto

subsection \<open>clearLab\<close>

text \<open>
  C10. \<open>clearLab\<close> sets \<open>components\<close> and \<open>connections\<close> to the empty list and
  \<open>simulationResult\<close> and \<open>selectedComponentId\<close> to null, and changes nothing else: \<open>goal\<close>,
  \<open>useCase\<close>, \<open>resultsHistory\<close>, \<open>isSimulating\<close> and \<open>isDraggingComponent\<close> keep their values
  (and so does the id counter).
\<close>

theorem clearLab_frame:
  "clearLab s =
     s\<lparr> components := [], connections := [], simulationResult := None,
        selectedComponentId := None \<rparr> \<and>
   components (clearLab s) = [] \<and> connections (clearLab s) = [] \<and>
   simulationResult (clearLab s) = None \<and> selectedComponentId (clearLab s) = None \<and>
   goal (clearLab s) = goal s \<and> useCase (clearLab s) = useCase s \<and>
   resultsHistory (clearLab s) = resultsHistory s \<and> isSimulating (clearLab s) = isSimulating s \<and>
   isDraggingComponent (clearLab s) = isDraggingComponent s \<and>
   componentCounter (clearLab s) = componentCounter s"
  by (simp add: clearLab_def)

subsection \<open>Connections\<close>

text \<open>
  C3. When the connections already hold the ordered pair \<open>(fromId, toId)\<close>,
  \<open>addConnection(fromId, toId)\<close> returns the state it was given: the pair is not added a
  second time, and no other field changes.
\<close>

theorem addConnection_duplicate_idempotent:
  "(fromId, toId) \<in> set (connections s) \<Longrightarrow> addConnection fromId toId s = s"
  by (simp add: addConnection_def list_ex_pair)

theorem addConnection_duplicate_idempotent_witness:
  "(''a'', ''b'') \<in> set (connections (two_node_store None)) \<and>
   addConnection ''a'' ''b'' (two_node_store None) = two_node_store None"
  using addConnection_duplicate_idempotent [of "''a''" "''b''" "two_node_store None"]
  by (simp add: sample_defs)

text \<open>
  C5. The order of the connections survives every operation of the store. \<open>addConnection\<close>
  leaves the sequence alone or appends the new pair at its end; \<open>removeConnection\<close> and
  \<open>removeComponent\<close> return a subsequence; and every operation whatsoever returns either a
  subsequence of the connections or the connections with one pair appended.
\<close>

theorem connections_order_preserved:
  "connections (addConnection f t s) =
     (if (f, t) \<in> set (connections s) then connections s else connections s @ [(f, t)]) \<and>
   subseq (connections (removeConnection f t s)) (connections s) \<and>
   subseq (connections (removeComponent i s)) (connections s) \<and>
   (subseq (connections (step a s)) (connections s) \<or>
    (\<exists>p. connections (step a s) = connections s @ [p]))"
proof -
  have "subseq (connections (step a s)) (connections s) \<or>
    (\<exists>p. connections (step a s) = connections s @ [p])"
    by (cases a) (simp_all add: store_op_defs Let_def split: option.splits)
  then show ?thesis
    by (simp add: addConnection_def removeConnection_def removeComponent_def list_ex_pair)
qed

text \<open>
  C9. \<open>handleComponentClick(id)\<close>: with no component selected (\<open>null\<close>, or the empty string,
  which the test \<open>!state.selectedComponentId\<close> treats alike) it selects \<open>id\<close>; a click on the
  selected component deselects it; a click on another component clears the selection and
  appends the connection \<open>(selected, id)\<close> exactly when neither that pair nor the reversed
  pair is present. \<open>addConnection\<close> appends exactly when the pair itself is absent, whatever
  the reversed pair.
\<close>

theorem handleComponentClick_cases:
  "(selectedComponentId s = None \<or> selectedComponentId s = Some [] \<longrightarrow>
      handleComponentClick i s = s\<lparr> selectedComponentId := Some i \<rparr>) \<and>
   (selectedComponentId s = Some i \<and> i \<noteq> [] \<longrightarrow>
      handleComponentClick i s = s\<lparr> selectedComponentId := None \<rparr>) \<and>
   (selectedComponentId s = Some sel \<and> sel \<noteq> [] \<and> sel \<noteq> i \<longrightarrow>
      selectedComponentId (handleComponentClick i s) = None \<and>
      connections (handleComponentClick i s) =
        (if (sel, i) \<notin> set (connections s) \<and> (i, sel) \<notin> set (connections s)
         then connections s @ [(sel, i)] else connections s)) \<and>
   connections (addConnection sel i s) =
     (if (sel, i) \<notin> set (connections s) then connections s @ [(sel, i)] else connections s)"
  by (auto simp add: handleComponentClick_def addConnection_def list_ex_pair list_ex_either Let_def)

text \<open>
  The three branches at the store with the connection from \<open>a\<close> to \<open>b\<close>: a first click on
  \<open>b\<close>; a click on \<open>b\<close> while \<open>b\<close> is selected; a click on \<open>a\<close> while \<open>b\<close> is selected, where
  the reversed pair stops the click and does not stop \<open>addConnection\<close>; and a click on \<open>c\<close>
  while \<open>b\<close> is selected, which connects.
\<close>

theorem handleComponentClick_cases_witness:
  "handleComponentClick ''b'' (two_node_store None) = two_node_store (Some ''b'') \<and>
   handleComponentClick ''b'' (two_node_store (Some ''b'')) = two_node_store None \<and>
   selectedComponentId (handleComponentClick ''a'' (two_node_store (Some ''b''))) = None \<and>
   connections (handleComponentClick ''a'' (two_node_store (Some ''b''))) = [(''a'', ''b'')] \<and>
   connections (addConnection ''b'' ''a'' (two_node_store (Some ''b''))) =
     [(''a'', ''b''), (''b'', ''a'')] \<and>
   connections (handleComponentClick ''c'' (two_node_store (Some ''b''))) =
     [(''a'', ''b''), (''b'', ''c'')]"
  using handleComponentClick_cases [of "two_node_store None" "''b''" "''b''"]
    handleComponentClick_cases [of "two_node_store (Some ''b'')" "''b''" "''b''"]
    handleComponentClick_cases [of "two_node_store (Some ''b'')" "''a''" "''b''"]
    handleComponentClick_cases [of "two_node_store (Some ''b'')" "''c''" "''b''"]
  by (simp add: sample_defs)

subsection \<open>The results history\<close>

lemma step_history_bound:
  "length (resultsHistory s) \<le> 5 \<Longrightarrow> length (resultsHistory (step a s)) \<le> 5"
  by (cases a) (simp_all add: store_op_defs Let_def split: option.splits)

lemma run_history_bound:
  "length (resultsHistory s) \<le> 5 \<Longrightarrow> length (resultsHistory (run as s)) \<le> 5"
  by (induction as arbitrary: s) (simp_all add: step_history_bound)

text \<open>
  C8. \<open>setSimulationResult\<close> with a result puts an entry for it (the result, the time read,
  the number of components) in front of the history and keeps the first 5 entries;
  \<open>setSimulationResult(null)\<close> leaves the history as it is; and after any sequence of calls
  from the initial store the history has at most 5 entries.
\<close>

theorem resultsHistory_bounded_newest_first:
  "resultsHistory (setSimulationResult (Some r) now s) =
     take 5 (\<lparr> result = r, timestamp = now, componentCount = length (components s) \<rparr>
             # resultsHistory s) \<and>
   hd (resultsHistory (setSimulationResult (Some r) now s)) =
     \<lparr> result = r, timestamp = now, componentCount = length (components s) \<rparr> \<and>
   length (resultsHistory (setSimulationResult (Some r) now s)) \<le> 5 \<and>
   resultsHistory (setSimulationResult None now s) = resultsHistory s \<and>
   length (resultsHistory (run as initial_store)) \<le> 5"
proof -
  have "length (resultsHistory initial_store) \<le> 5"
    by (simp add: initial_store_def)
  then have "length (resultsHistory (run as initial_store)) \<le> 5"
    by (rule run_history_bound)
  then show ?thesis
    by (simp add: setSimulationResult_def)
qed

subsection \<open>Component ids\<close>

lemma digit_char_inj: "a < 10 \<Longrightarrow> b < 10 \<Longrightarrow> digit_char a = digit_char b \<Longrightarrow> a = b"
proof -
  assume a: "a < 10" and b: "b < 10" and e: "digit_char a = digit_char b"
  from e have "(of_char (char_of (48 + a)) :: nat) = of_char (char_of (48 + b))"
    by (simp add: digit_char_def)
  with a b show "a = b" by simp
qed

lemma digit_char_not_hyphen: "d < 10 \<Longrightarrow> digit_char d \<noteq> CHR ''-''"
proof
  assume d: "d < 10" and e: "digit_char d = CHR ''-''"
  from e have "(of_char (char_of (48 + d)) :: nat) = of_char CHR ''-''"
    by (simp add: digit_char_def)
  with d show False by simp
qed

lemma string_of_nat_nonempty: "string_of_nat n \<noteq> []"
  by (subst string_of_nat.simps) simp

lemma string_of_nat_no_hyphen: "CHR ''-'' \<notin> set (string_of_nat n)"
proof (induction n rule: string_of_nat.induct)
  case (1 n)
  show ?case
  proof (cases "n < 10")
    case True
    then show ?thesis
      using digit_char_not_hyphen [of n] by (subst string_of_nat.simps) auto
  next
    case False
    have "n mod 10 < 10" by simp
    then have "digit_char (n mod 10) \<noteq> CHR ''-''" by (rule digit_char_not_hyphen)
    with False "1.IH" show ?thesis
      by (subst string_of_nat.simps) auto
  qed
qed

lemma string_of_nat_inj: "string_of_nat n = string_of_nat m \<Longrightarrow> n = m"
proof (induction n arbitrary: m rule: string_of_nat.induct)
  case (1 n)
  show ?case
  proof (cases "n < 10")
    case n: True
    show ?thesis
    proof (cases "m < 10")
      case True
      with n "1.prems" have "digit_char n = digit_char m"
        by (simp add: string_of_nat.simps [of n] string_of_nat.simps [of m])
      with n True show ?thesis by (rule digit_char_inj)
    next
      case False
      with n "1.prems" have "string_of_nat (m div 10) = []"
        by (simp add: string_of_nat.simps [of n] string_of_nat.simps [of m] Cons_eq_append_conv)
      then show ?thesis by (simp add: string_of_nat_nonempty)
    qed
  next
    case n: False
    show ?thesis
    proof (cases "m < 10")
      case True
      with n "1.prems" have "string_of_nat (n div 10) = []"
        by (simp add: string_of_nat.simps [of n] string_of_nat.simps [of m] append_eq_Cons_conv)
      then show ?thesis by (simp add: string_of_nat_nonempty)
    next
      case False
      with n "1.prems" have e: "string_of_nat (n div 10) = string_of_nat (m div 10)"
        and d: "digit_char (n mod 10) = digit_char (m mod 10)"
        by (simp_all add: string_of_nat.simps [of n] string_of_nat.simps [of m])
      from n e have "n div 10 = m div 10" by (rule "1.IH")
      moreover from d have "n mod 10 = m mod 10"
        by (rule digit_char_inj [rotated 2]) simp_all
      ultimately show ?thesis
        by (metis div_mult_mod_eq)
    qed
  qed
qed

lemma id_serial_append: "CHR ''-'' \<notin> set d \<Longrightarrow> id_serial (xs @ CHR ''-'' # d) = d"
proof -
  assume d: "CHR ''-'' \<notin> set d"
  then have "takeWhile (\<lambda>c. c \<noteq> CHR ''-'') (rev d @ CHR ''-'' # rev xs) = rev d"
    by (auto simp add: takeWhile_tail takeWhile_eq_all_conv)
  then show ?thesis
    by (simp add: id_serial_def)
qed

lemma id_serial_new: "id_serial (new_component_id ty now n) = string_of_nat n"
proof -
  have "new_component_id ty now n = (ty @ ''-'' @ string_of_int now) @ CHR ''-'' # string_of_nat n"
    by (simp add: new_component_id_def)
  then show ?thesis
    by (simp only: id_serial_append [OF string_of_nat_no_hyphen])
qed

lemma serial_issued:
  "(x \<in> set (map string_of_nat [0..<Suc n])) = (\<exists>k\<le>n. x = string_of_nat k)"
proof -
  have "set [0..<Suc n] = {k. k \<le> n}"
    by (auto simp del: upt_Suc)
  then show ?thesis
    by (auto simp del: upt_Suc simp add: image_iff)
qed

lemma serial_inv_addComponent:
  assumes "serial_inv s"
  shows "serial_inv (addComponent ty pos now s)"
proof -
  let ?n = "Suc (componentCounter s)"
  have fresh: "string_of_nat ?n \<notin> (\<lambda>c. id_serial (id_c c)) ` set (components s)"
  proof
    assume "string_of_nat ?n \<in> (\<lambda>c. id_serial (id_c c)) ` set (components s)"
    then obtain c where c: "c \<in> set (components s)" and e: "id_serial (id_c c) = string_of_nat ?n"
      by auto
    from assms c obtain k where k: "k \<le> componentCounter s"
      and "id_serial (id_c c) = string_of_nat k"
      unfolding serial_inv_def list_all_iff serial_issued by blast
    with e have "string_of_nat k = string_of_nat ?n" by simp
    then have "k = ?n" by (rule string_of_nat_inj)
    with k show False by simp
  qed
  have old: "\<forall>c \<in> set (components s). \<exists>k\<le>?n. id_serial (id_c c) = string_of_nat k"
    using assms unfolding serial_inv_def list_all_iff serial_issued by (meson le_Suc_eq)
  from assms fresh old show ?thesis
    unfolding serial_inv_def list_all_iff serial_issued
    by (auto simp add: addComponent_def Let_def id_serial_new)
qed

lemma serial_update_position:
  "(\<lambda>c. f (id_c c)) \<circ> (\<lambda>c. if id_c c = i then c\<lparr> position := p \<rparr> else c) = (\<lambda>c. f (id_c c))"
  by (rule ext) simp

lemma serial_inv_step: "serial_inv s \<Longrightarrow> serial_inv (step a s)"
proof (cases a)
  case (AddComponent ty pos now)
  assume "serial_inv s"
  then show ?thesis using AddComponent by (simp add: serial_inv_addComponent)
next
  case (RemoveComponent i)
  assume "serial_inv s"
  then show ?thesis using RemoveComponent
    by (auto simp add: serial_inv_def list_all_iff removeComponent_def distinct_map_filter)
next
  case (UpdateComponentPosition i pos)
  assume "serial_inv s"
  then show ?thesis using UpdateComponentPosition
    by (auto simp add: serial_inv_def list_all_iff updateComponentPosition_def
        serial_update_position)
qed (auto simp add: serial_inv_def list_all_iff addConnection_def
  removeConnection_def setGoal_def setSimulationResult_def setIsSimulating_def
  setSelectedComponentId_def setIsDraggingComponent_def setUseCase_def
  handleComponentClick_def clearLab_def Let_def split: option.splits)

lemma serial_inv_run: "serial_inv s \<Longrightarrow> serial_inv (run as s)"
  by (induction as arbitrary: s) (simp_all add: serial_inv_step)

lemma distinct_map_outer: "distinct (map (\<lambda>x. f (g x)) xs) \<Longrightarrow> distinct (map g xs)"
  by (induction xs) auto

text \<open>
  C6. After any sequence of calls from the initial store (of \<open>addComponent\<close> and
  \<open>removeComponent\<close>, and of every other operation) the ids of the components are pairwise
  distinct: \<open>addComponent\<close> adds 1 to the counter on every call and gives the new component
  the id made of its type, the time read and the new counter value, whose decimal text
  after the last hyphen no earlier id carries.
\<close>

theorem component_ids_unique:
  "distinct (map id_c (components (run as initial_store))) \<and>
   componentCounter (addComponent ty pos now s) = componentCounter s + 1 \<and>
   map id_c (components (addComponent ty pos now s)) =
     map id_c (components s) @ [new_component_id ty now (componentCounter s + 1)]"
proof -
  have "serial_inv initial_store"
    by (simp add: serial_inv_def initial_store_def)
  then have "serial_inv (run as initial_store)"
    by (rule serial_inv_run)
  then have "distinct (map id_c (components (run as initial_store)))"
    unfolding serial_inv_def by (blast intro: distinct_map_outer)
  then show ?thesis
    by (simp add: addComponent_def Let_def)
qed

subsection \<open>The graph invariant\<close>

lemma ids_update_position:
  "id_c \<circ> (\<lambda>c. if id_c c = i then c\<lparr> position := p \<rparr> else c) = id_c"
  by (rule ext) simp

lemmas graph_inv_defs =
  graph_inv_def endpoints_resolve_def selection_resolves_def component_ids_def

lemma graph_inv_addComponent: "graph_inv s \<Longrightarrow> graph_inv (addComponent ty pos now s)"
  by (auto simp add: graph_inv_defs addComponent_def Let_def list_all_iff split: option.splits)

lemma graph_inv_removeComponent: "graph_inv s \<Longrightarrow> graph_inv (removeComponent i s)"
  by (auto simp add: graph_inv_defs removeComponent_def list_all_iff split: option.splits)

lemma graph_inv_updateComponentPosition:
  "graph_inv s \<Longrightarrow> graph_inv (updateComponentPosition i pos s)"
  by (simp add: graph_inv_defs updateComponentPosition_def ids_update_position
      split: option.splits)

lemma graph_inv_addConnection:
  "graph_inv s \<Longrightarrow> f \<in> component_ids s \<Longrightarrow> t \<in> component_ids s \<Longrightarrow>
   graph_inv (addConnection f t s)"
  by (auto simp add: graph_inv_defs addConnection_def Let_def list_all_iff split: option.splits)

lemma graph_inv_handleComponentClick:
  "graph_inv s \<Longrightarrow> i \<in> component_ids s \<Longrightarrow> graph_inv (handleComponentClick i s)"
  by (auto simp add: graph_inv_defs handleComponentClick_def Let_def list_all_iff
      split: option.splits)

lemma graph_inv_step: "graph_inv s \<Longrightarrow> call_in_graph a s \<Longrightarrow> graph_inv (step a s)"
proof (cases a)
  case (SetSelectedComponentId i)
  assume "graph_inv s" "call_in_graph a s"
  with SetSelectedComponentId show ?thesis
    by (cases i) (simp_all add: graph_inv_defs setSelectedComponentId_def)
next
  case (SetSimulationResult r now)
  assume "graph_inv s"
  with SetSimulationResult show ?thesis
    by (simp add: graph_inv_defs setSimulationResult_def Let_def split: option.splits)
qed (simp_all add: graph_inv_addComponent graph_inv_removeComponent
      graph_inv_updateComponentPosition graph_inv_addConnection graph_inv_handleComponentClick,
     simp_all add: graph_inv_defs removeConnection_def setGoal_def setIsSimulating_def
      setIsDraggingComponent_def setUseCase_def clearLab_def list_all_iff split: option.splits)

lemma graph_inv_run: "graph_inv s \<Longrightarrow> calls_in_graph as s \<Longrightarrow> graph_inv (run as s)"
  by (induction as arbitrary: s) (simp_all add: graph_inv_step)

lemma graph_inv_initial: "graph_inv initial_store"
  by (simp add: graph_inv_defs initial_store_def)

text \<open>
  C1, as the claim states it, fails: \<open>addConnection\<close> does not look at the components, so one
  call on the initial store leaves a connection between two ids that no component has.
\<close>

theorem dangling_connection_counterexample:
  "\<not> endpoints_resolve (run [AddConnection ''a'' ''b''] initial_store)"
  by (simp add: endpoints_resolve_def component_ids_def addConnection_def initial_store_def)

text \<open>
  C1, amended. The store checks no id; its callers pass ids of components that are in the
  store. Under that discipline (\<open>addConnection\<close>, \<open>handleComponentClick\<close> and a non-null
  \<open>setSelectedComponentId\<close> are called with ids of current components) every operation
  preserves the invariant that every connection endpoint and the selected id are ids of
  components, so every state reached from the initial store has all endpoints resolved;
  and \<open>removeComponent(id)\<close> leaves no connection whose \<open>fromId\<close> or \<open>toId\<close> is \<open>id\<close>, in
  any state.
\<close>

theorem endpoints_resolve_preserved:
  "(endpoints_resolve s \<and> selection_resolves s \<and> call_in_graph a s \<longrightarrow>
      endpoints_resolve (step a s) \<and> selection_resolves (step a s)) \<and>
   (calls_in_graph as initial_store \<longrightarrow> endpoints_resolve (run as initial_store)) \<and>
   list_all (\<lambda>(f, t). f \<noteq> i \<and> t \<noteq> i) (connections (removeComponent i s))"
proof -
  have 1: "endpoints_resolve s \<and> selection_resolves s \<and> call_in_graph a s \<longrightarrow>
      endpoints_resolve (step a s) \<and> selection_resolves (step a s)"
    using graph_inv_step [of s a] by (simp add: graph_inv_def)
  have 2: "calls_in_graph as initial_store \<longrightarrow> endpoints_resolve (run as initial_store)"
    using graph_inv_run [OF graph_inv_initial, of as] by (simp add: graph_inv_def)
  have 3: "list_all (\<lambda>(f, t). f \<noteq> i \<and> t \<noteq> i) (connections (removeComponent i s))"
    by (auto simp add: removeComponent_def list_all_iff)
  from 1 2 3 show ?thesis by blast
qed

theorem endpoints_resolve_preserved_witness:
  "endpoints_resolve (two_node_store None) \<and> selection_resolves (two_node_store None) \<and>
   call_in_graph (AddConnection ''b'' ''c'') (two_node_store None) \<and>
   endpoints_resolve (step (AddConnection ''b'' ''c'') (two_node_store None)) \<and>
   connections (step (AddConnection ''b'' ''c'') (two_node_store None)) =
     [(''a'', ''b''), (''b'', ''c'')] \<and>
   calls_in_graph build_calls initial_store \<and>
   endpoints_resolve (run build_calls initial_store) \<and>
   connections (run (butlast build_calls) initial_store) = [(''s3-1700-1'', ''rds-1700-2'')] \<and>
   connections (run build_calls initial_store) = [] \<and>
   connections (removeComponent ''b'' (two_node_store None)) = []"
proof -
  have id1: "new_component_id ''s3'' 1700 (Suc 0) = ''s3-1700-1''"
    by code_simp
  have id2: "new_component_id ''rds'' 1700 (Suc (Suc 0)) = ''rds-1700-2''"
    by code_simp
  have h1: "endpoints_resolve (two_node_store None) \<and> selection_resolves (two_node_store None) \<and>
   call_in_graph (AddConnection ''b'' ''c'') (two_node_store None)"
    by (simp add: endpoints_resolve_def selection_resolves_def component_ids_def sample_defs)
  have h2: "calls_in_graph build_calls initial_store"
    by (simp add: build_calls_def component_ids_def store_op_defs id1 id2 initial_store_def)
  have c1: "connections (step (AddConnection ''b'' ''c'') (two_node_store None)) =
     [(''a'', ''b''), (''b'', ''c'')]"
    by (simp add: addConnection_def sample_defs)
  have c2: "connections (run (butlast build_calls) initial_store) =
     [(''s3-1700-1'', ''rds-1700-2'')]"
    by (simp add: build_calls_def store_op_defs id1 id2 initial_store_def)
  have c3: "connections (run build_calls initial_store) = []"
    by (simp add: build_calls_def store_op_defs id1 id2 initial_store_def)
  have c4: "connections (removeComponent ''b'' (two_node_store None)) = []"
    by (simp add: removeComponent_def sample_defs)
  from h1 h2 c1 c2 c3 c4
    endpoints_resolve_preserved
      [of "two_node_store None" "AddConnection ''b'' ''c''" build_calls "''b''"]
  show ?thesis by simp
qed

section \<open>Properties of the display\<close>

lemma Math_round_cost: "Math_round (of_int c * 2.5) = (5 * c + 1) div 2"
proof -
  have "of_int c * (2.5 :: rat) + 1 / 2 = of_int (5 * c + 1) / of_int 2"
    by (simp add: field_simps)
  then have "Math_round (of_int c * 2.5) = \<lfloor>(of_int (5 * c + 1) :: rat) / of_int 2\<rfloor>"
    by (simp only: Math_round_def)
  then show ?thesis
    by (simp only: floor_divide_of_int_eq)
qed

text \<open>
  What a simulation returns. The raw cost figure starts at the flat baseline 10 and grows
  with the components; a scale that keeps the baseline (the empty graph has cost index 10)
  and is monotone maps it to a cost index from 10 to 100. No simulation returns the cost
  index 0.
\<close>

lemma simulate_cost_index_range:
  assumes scale: "mono (cost_scale P)" and baseline: "cost_scale P 10 = 10"
    and run: "simulate P g gl = Inr r"
  shows "10 \<le> cost_index r \<and> cost_index r \<le> 100"
proof -
  let ?ps = "profiles_of P g"
  let ?raw = "10 + 8 * int (length (filter (\<lambda>p. expensive_threshold P \<le> base_monthly_cost p) ?ps))
                 + 3 * int (length (filter (\<lambda>p. 0 < base_monthly_cost p \<and>
                                               base_monthly_cost p < expensive_threshold P) ?ps))"
  from run have c: "cost_index r = cost_index_of P g"
    by (auto simp add: simulate_def Let_def split: option.splits)
  have "(10 :: int) \<le> ?raw"
    by simp
  with scale have "cost_scale P 10 \<le> cost_scale P ?raw"
    by (rule monoD)
  with baseline have "10 \<le> cost_scale P ?raw"
    by simp
  then have "10 \<le> cost_index_of P g \<and> cost_index_of P g \<le> 100"
    by (simp add: cost_index_of_def Let_def)
  with c show ?thesis
    by simp
qed

text \<open>
  C4. For every simulation result in the store (its cost index is in the contract's range
  up to 100 and is not 0, which no simulation returns) the status bar shows the dollar
  amount \<open>Math.round(cost_index * 2.5)\<close>, and the results panel, which displays the result
  when no simulation runs, shows the same amount. The amount is
  \<open>(5 * cost_index + 1) div 2\<close>.
\<close>

theorem displayed_cost:
  "simulationResult s = Some r \<Longrightarrow> 0 < cost_index r \<Longrightarrow> cost_index r \<le> 100 \<Longrightarrow>
   estimatedCost s =
     ''$'' @ string_of_int (Math_round (of_int (cost_index r) * 2.5)) @ ''/mo'' \<and>
   (\<not> isSimulating s \<longrightarrow>
      ResultsPanel_cost_line s =
        Some (''~$'' @ string_of_int (Math_round (of_int (cost_index r) * 2.5)) @ ''/month'')) \<and>
   Math_round (of_int (cost_index r) * 2.5) = (5 * cost_index r + 1) div 2"
  using Math_round_cost [of "cost_index r"]
  by (simp add: estimatedCost_def ResultsPanel_cost_line_def)

theorem displayed_cost_witness:
  "simulationResult (store_showing 60) = Some (sample_result 60) \<and>
   0 < cost_index (sample_result 60) \<and> cost_index (sample_result 60) \<le> 100 \<and>
   \<not> isSimulating (store_showing 60) \<and>
   estimatedCost (store_showing 60) = ''$150/mo'' \<and>
   ResultsPanel_cost_line (store_showing 60) = Some ''~$150/month''"
proof -
  have d: "string_of_int 150 = ''150''"
    by code_simp
  have h1: "simulationResult (store_showing 60) = Some (sample_result 60)"
    by (simp add: sample_defs)
  have h2: "0 < cost_index (sample_result 60)"
    by (simp add: sample_result_def)
  have h3: "cost_index (sample_result 60) \<le> 100"
    by (simp add: sample_result_def)
  have n: "\<not> isSimulating (store_showing 60)"
    by (simp add: sample_defs)
  have m: "(5 * cost_index (sample_result 60) + 1) div 2 = 150"
    by (simp add: sample_result_def)
  from h1 h2 h3 n d m displayed_cost [OF h1 h2 h3] show ?thesis
    by simp
qed

section \<open>Properties of the palette\<close>

text \<open>
  C7. The table of kinds the user picks from has exactly 17 entries, its kinds are
  pairwise distinct, and every kind is a member of the union \<open>ComponentType\<close>. The table is
  a constant of the module.
\<close>

theorem componentTypes_catalog:
  "length componentTypes = 17 \<and> distinct (map type_i componentTypes) \<and>
   list_all (\<lambda>k. k \<in> set ComponentType) (map type_i componentTypes)"
  by (simp add: componentTypes_def ComponentType_def)

section \<open>Properties of the engine\<close>

text \<open>
  C2. For every catalog and every graph, the runs of \<open>simulate\<close> with the goals
  \<open>low_latency\<close>, \<open>high_availability\<close> and \<open>low_cost\<close> give the same latency, scalability
  score and cost index (or fail with the same error); the goal reaches the explanation
  only.
\<close>

theorem goal_noninterference:
  "scores (simulate P g low_latency) = scores (simulate P g gl) \<and>
   scores (simulate P g high_availability) = scores (simulate P g gl) \<and>
   scores (simulate P g low_cost) = scores (simulate P g gl)"
  by (simp add: scores_def simulate_def Let_def split: option.splits)

text \<open>At the sample graph the scores are 49 ms, 60 and 24 for two goals; the texts differ.\<close>

theorem goal_noninterference_sample:
  "scores (simulate sample_params sample_graph low_latency) = Inr (49, 60, 24) \<and>
   scores (simulate sample_params sample_graph low_cost) = Inr (49, 60, 24) \<and>
   explanation (projr (simulate sample_params sample_graph low_latency)) \<noteq>
   explanation (projr (simulate sample_params sample_graph low_cost))"
  using goal_noninterference [of sample_params sample_graph low_cost]
  by (simp add: scores_def simulate_def validate_def lookup_def latency_of_def scalability_of_def
      cost_index_of_def ceiling_of_def profiles_of_def reducers_def List.map_filter_def
      sample_params_def sample_graph_def Let_def)

end
